theory Spec2Isabelle
  imports Complex_Main "HOL-Library.Word" "HOL-Library.AList"
begin

section \<open>Strings and values of the host language\<close>

text \<open>
  The wrapper (\<^verbatim>\<open>src/utils/sqlite-wrapper.ts\<close>) is TypeScript. A string of the host
  language is a sequence of 16-bit code units, and the regular expressions of the
  identifier check (no \<^verbatim>\<open>u\<close> flag) work on code units, so a string is modelled as a
  list of 16-bit words. \<open>js\<close> embeds an ASCII literal.
\<close>

type_synonym jschar = "16 word"
type_synonym jsstring = "jschar list"

definition js :: "string \<Rightarrow> jsstring" where
  "js s = map (\<lambda>c. of_nat (of_char c)) s"

text \<open>
  \<^verbatim>\<open>Array.prototype.join\<close>: the elements separated by \<open>sep\<close>; the empty array gives
  the empty string.
\<close>

fun join :: "jsstring \<Rightarrow> jsstring list \<Rightarrow> jsstring" where
  "join sep [] = []"
| "join sep [x] = x"
| "join sep (x # y # ys) = x @ sep @ join sep (y # ys)"

text \<open>
  A \<^verbatim>\<open>number\<close> is a double: a finite value (a real here, which only enlarges the
  inputs), an infinity or NaN. \<open>gt0\<close> is the comparison \<^verbatim>\<open>n > 0\<close>, false for NaN.
\<close>

datatype jsnumber = Finite real | PosInfinity | NegInfinity | NaN

fun gt0 :: "jsnumber \<Rightarrow> bool" where
  "gt0 (Finite r) = (0 < r)"
| "gt0 PosInfinity = True"
| "gt0 NegInfinity = False"
| "gt0 NaN = False"

text \<open>\<^verbatim>\<open>AvailableDataTypeType = string | number | boolean | null\<close>\<close>

datatype jsvalue = VString jsstring | VNumber jsnumber | VBoolean bool | VNull

section \<open>The identifier check\<close>

text \<open>
  \<^verbatim>\<open>\s\<close> of an ECMAScript regular expression, and the characters \<^verbatim>\<open>trim\<close> removes:
  TAB, LF, VT, FF, CR, space, U+00A0, U+1680, U+2000 to U+200A, U+2028, U+2029, U+202F,
  U+205F, U+3000 and U+FEFF.
\<close>

definition inRange :: "jschar \<Rightarrow> jschar \<Rightarrow> jschar \<Rightarrow> bool" where
  "inRange lo hi c = (lo \<le> c \<and> c \<le> hi)"

definition isWhiteSpace :: "jschar \<Rightarrow> bool" where
  "isWhiteSpace c =
     (inRange 0x09 0x0D c \<or> c = 0x20 \<or> c = 0xA0 \<or> c = 0x1680 \<or> inRange 0x2000 0x200A c \<or>
      c = 0x2028 \<or> c = 0x2029 \<or> c = 0x202F \<or> c = 0x205F \<or> c = 0x3000 \<or> c = 0xFEFF)"

definition isLetter :: "jschar \<Rightarrow> bool" where
  "isLetter c = (inRange 0x61 0x7A c \<or> inRange 0x41 0x5A c)"

definition isDigit :: "jschar \<Rightarrow> bool" where
  "isDigit c = inRange 0x30 0x39 c"

text \<open>The character class \<^verbatim>\<open>[a-zA-Z0-9_\s]\<close>.\<close>

definition identChar :: "jschar \<Rightarrow> bool" where
  "identChar c =
     (inRange 0x61 0x7A c \<or> inRange 0x41 0x5A c \<or> inRange 0x30 0x39 c \<or> c = 0x5F \<or> isWhiteSpace c)"

text \<open>The character class \<^verbatim>\<open>[a-zA-Z0-9_,\s]\<close>.\<close>

definition tupleChar :: "jschar \<Rightarrow> bool" where
  "tupleChar c =
     (inRange 0x61 0x7A c \<or> inRange 0x41 0x5A c \<or> inRange 0x30 0x39 c \<or> c = 0x5F \<or> c = 0x2C \<or>
      isWhiteSpace c)"

text \<open>
  The three regular expressions of \<^verbatim>\<open>checkSqlQueryIdentifierName\<close>, each as the set of
  strings on which \<^verbatim>\<open>test\<close> answers true:
  \<^item> \<^verbatim>\<open>allowedChars = /^[a-zA-Z0-9_\s]+$/\<close>: one or more characters, all of the class;
  \<^item> \<^verbatim>\<open>singleStar = /\*$/\<close>: not anchored at the start, so any string whose last
    character is \<^verbatim>\<open>*\<close>;
  \<^item> \<^verbatim>\<open>allowTuple = /^\([a-zA-Z0-9_,\s]+\)$/\<close>: an opening parenthesis, one or more
    characters of the class, a closing parenthesis.
\<close>

definition allowedChars :: "jsstring \<Rightarrow> bool" where
  "allowedChars s = (s \<noteq> [] \<and> list_all identChar s)"

definition singleStar :: "jsstring \<Rightarrow> bool" where
  "singleStar s = (s \<noteq> [] \<and> last s = 0x2A)"

definition allowTuple :: "jsstring \<Rightarrow> bool" where
  "allowTuple s =
     (case s of
        [] \<Rightarrow> False
      | c # r \<Rightarrow> c = 0x28 \<and> r \<noteq> [] \<and> last r = 0x29 \<and> butlast r \<noteq> [] \<and>
                 list_all tupleChar (butlast r))"

definition checkSqlQueryIdentifierName :: "jsstring \<Rightarrow> bool" where
  "checkSqlQueryIdentifierName characters =
     (allowedChars characters \<or> singleStar characters \<or> allowTuple characters)"

section \<open>Conditions, rows and table frames\<close>

text \<open>
  \<^verbatim>\<open>WhereConditionItemType\<close>. The operator and the connective are string literal
  types of the source, so each is a datatype with the text it stands for.
\<close>

datatype comparison = Eq | Gt | Lt | Ge | Le | Ne | Like

fun comparisonText :: "comparison \<Rightarrow> jsstring" where
  "comparisonText Eq = js ''=''"
| "comparisonText Gt = js ''>''"
| "comparisonText Lt = js ''<''"
| "comparisonText Ge = js ''>=''"
| "comparisonText Le = js ''<=''"
| "comparisonText Ne = js ''!=''"
| "comparisonText Like = js ''LIKE''"

datatype connective = And | Or

fun connectiveText :: "connective \<Rightarrow> jsstring" where
  "connectiveText And = js ''AND''"
| "connectiveText Or = js ''OR''"

record WhereConditionItemType =
  key :: jsstring
  operator :: comparison
  compared :: jsvalue
  logicalOperator :: connective

text \<open>
  \<^verbatim>\<open>TableFrameDataType\<close>, one row: the pairs of an object in the order of
  \<^verbatim>\<open>Object.keys\<close> (and \<^verbatim>\<open>Object.values\<close>).
\<close>

type_synonym TableFrameDataType = "(jsstring \<times> jsvalue) list"

datatype DataTypesSqlType = NULL | INTEGER | REAL | TEXT | BOOLEAN

fun dataTypeText :: "DataTypesSqlType \<Rightarrow> jsstring" where
  "dataTypeText NULL = js ''NULL''"
| "dataTypeText INTEGER = js ''INTEGER''"
| "dataTypeText REAL = js ''REAL''"
| "dataTypeText TEXT = js ''TEXT''"
| "dataTypeText BOOLEAN = js ''BOOLEAN''"

datatype referentialAction = CASCADE | SET_NULL | NO_ACTION | RESTRICT

fun referentialActionText :: "referentialAction \<Rightarrow> jsstring" where
  "referentialActionText CASCADE = js ''CASCADE''"
| "referentialActionText SET_NULL = js ''SET NULL''"
| "referentialActionText NO_ACTION = js ''NO ACTION''"
| "referentialActionText RESTRICT = js ''RESTRICT''"

record foreignKeyType =
  references :: jsstring
  referencedColumn :: jsstring
  onDelete :: "referentialAction option"
  onUpdate :: "referentialAction option"

text \<open>
  One column of a \<^verbatim>\<open>TableFrameInitType\<close>. The optional flags \<^verbatim>\<open>primaryKey\<close> and
  \<^verbatim>\<open>notNull\<close> are only tested for truth, so an absent flag is \<open>False\<close>.
\<close>

record columnType =
  sqlType :: DataTypesSqlType
  primaryKey :: bool
  notNull :: bool
  defaultValue :: "jsvalue option"
  foreignKey :: "foreignKeyType option"

type_synonym TableFrameInitType = "(jsstring \<times> columnType) list"

datatype conflictAction = ROLLBACK | FAIL | NOTHING | UPDATE | IGNORE | REPLACE

fun conflictActionText :: "conflictAction \<Rightarrow> jsstring" where
  "conflictActionText ROLLBACK = js ''ROLLBACK''"
| "conflictActionText FAIL = js ''FAIL''"
| "conflictActionText NOTHING = js ''NOTHING''"
| "conflictActionText UPDATE = js ''UPDATE''"
| "conflictActionText IGNORE = js ''IGNORE''"
| "conflictActionText REPLACE = js ''REPLACE''"

text \<open>The \<^verbatim>\<open>conflict\<close> option of \<^verbatim>\<open>insert\<close>: the action and the optional key.\<close>

record conflictType =
  action :: conflictAction
  conflictKey :: "jsstring option"

section \<open>The engine, errors and promises\<close>

text \<open>
  The engine (\<^verbatim>\<open>node-sqlite3-wasm\<close>) is outside the repository. What the wrapper sends
  to it is recorded, call by call, in the field \<open>engineCalls\<close> of the state; what the
  engine answers is a parameter of every operation, a record of functions of the calls
  made so far. An answer \<open>Inl m\<close> (for \<open>dbRun\<close>: \<open>Some m\<close>) is the engine throwing,
  \<open>m\<close> being the text \<^verbatim>\<open>error.message || error\<close> the wrapper puts in its messages.
\<close>

type_synonym Statement = nat

datatype engineCall =
    DbRun jsstring
  | DbPrepare jsstring
  | StatementRun Statement "jsvalue list"
  | StatementAll Statement "jsvalue list"
  | StatementFinalize Statement

record RunResult =
  changes :: int
  lastInsertRowid :: int

type_synonym QueryResult = "(jsstring \<times> jsvalue) list"

record engine =
  dbRun :: "engineCall list \<Rightarrow> jsstring \<Rightarrow> jsstring option"
  dbPrepare :: "engineCall list \<Rightarrow> jsstring \<Rightarrow> jsstring + Statement"
  statementRun :: "engineCall list \<Rightarrow> Statement \<Rightarrow> jsvalue list \<Rightarrow> jsstring + RunResult"
  statementAll :: "engineCall list \<Rightarrow> Statement \<Rightarrow> jsvalue list \<Rightarrow> jsstring + QueryResult list"

text \<open>
  The reasons of a rejection and the values thrown, by the template of their message:
  \<^item> \<open>InvalidTableName t\<close>: \<^verbatim>\<open>Invalid characters in table name: ${t}\<close>
  \<^item> \<open>InvalidColumnName c\<close>: \<^verbatim>\<open>Invalid characters in column name: ${c}\<close>
  \<^item> \<open>TableDoesNotExist t\<close>: \<^verbatim>\<open>Table ${t} does not exist\<close>
  \<^item> \<open>TableNotFound t\<close>: \<^verbatim>\<open>Table ${t} not found.\<close>
  \<^item> \<open>FailedToPrepareTable m\<close>: \<^verbatim>\<open>Failed to prepare table due to: ${m}\<close>
  \<^item> \<open>FailedToDeleteTable m\<close>: \<^verbatim>\<open>Failed to delete table: ${m}\<close>
  \<^item> \<open>SqlError m\<close>: \<^verbatim>\<open>SQL error: ${m}\<close>
  \<^item> \<open>FailedToFetch t e\<close>: \<^verbatim>\<open>Failed to fetch filtered data from ${t}: ${e}\<close>
  \<^item> \<open>FailedToUpdate t e\<close>: \<^verbatim>\<open>Failed to update data in ${t}: ${e}\<close>
  \<^item> \<open>FailedToDelete t e\<close>: \<^verbatim>\<open>Failed to delete data from ${t}: ${e}\<close>
  \<^item> \<open>TypeError\<close>: the host's error for \<^verbatim>\<open>Object.keys(undefined)\<close>.
\<close>

datatype error =
    InvalidTableName jsstring
  | InvalidColumnName jsstring
  | TableDoesNotExist jsstring
  | TableNotFound jsstring
  | FailedToPrepareTable jsstring
  | FailedToDeleteTable jsstring
  | SqlError jsstring
  | FailedToFetch jsstring error
  | FailedToUpdate jsstring error
  | FailedToDelete jsstring error
  | TypeError

text \<open>
  A promise that has settled. While the executor of \<^verbatim>\<open>new Promise\<close> runs the promise
  is pending (\<open>None\<close>) until the first call of \<^verbatim>\<open>resolve\<close> or \<^verbatim>\<open>reject\<close>; every later
  call is ignored, and neither call ends the executor.
\<close>

datatype 'a settled = Fulfilled 'a | Rejected error

definition resolve :: "'a \<Rightarrow> 'a settled option \<Rightarrow> 'a settled option" where
  "resolve v p = (case p of None \<Rightarrow> Some (Fulfilled v) | Some x \<Rightarrow> Some x)"

definition reject :: "error \<Rightarrow> 'a settled option \<Rightarrow> 'a settled option" where
  "reject e p = (case p of None \<Rightarrow> Some (Rejected e) | Some x \<Rightarrow> Some x)"

section \<open>The wrapper's state and its statement cache\<close>

text \<open>
  The fields of \<^verbatim>\<open>DatabaseWrapper\<close> that change: the schema registry \<^verbatim>\<open>tables\<close>, the
  \<^verbatim>\<open>Map\<close> of cached statements in insertion order, and the calls sent to the engine,
  oldest first. The logger is a collaborator that is assumed not to throw; its calls
  change nothing here and are left out.
\<close>

record DatabaseWrapper =
  tables :: "jsstring \<rightharpoonup> TableFrameInitType"
  cachedStatements :: "(jsstring \<times> Statement) list"
  engineCalls :: "engineCall list"

definition cacheRecordMaximum :: nat where
  "cacheRecordMaximum = 512"

definition sent :: "engineCall \<Rightarrow> DatabaseWrapper \<Rightarrow> DatabaseWrapper" where
  "sent c s = s\<lparr>engineCalls := engineCalls s @ [c]\<rparr>"

definition retrieveCache :: "jsstring \<Rightarrow> DatabaseWrapper \<Rightarrow> Statement option" where
  "retrieveCache query s = map_of (cachedStatements s) query"

text \<open>\<^verbatim>\<open>Map.set\<close>: a key that is present keeps its place, a new key goes last.\<close>

definition recordCache :: "jsstring \<Rightarrow> Statement \<Rightarrow> DatabaseWrapper \<Rightarrow> DatabaseWrapper" where
  "recordCache query statement s =
     s\<lparr>cachedStatements := AList.update query statement (cachedStatements s)\<rparr>"

text \<open>\<^verbatim>\<open>finalize\<close> is assumed not to throw.\<close>

definition freeCache :: "DatabaseWrapper \<Rightarrow> DatabaseWrapper" where
  "freeCache s =
     s\<lparr>engineCalls := engineCalls s @ map (\<lambda>(q, statement). StatementFinalize statement) (cachedStatements s),
       cachedStatements := []\<rparr>"

definition cacheSizeGuard :: "DatabaseWrapper \<Rightarrow> DatabaseWrapper" where
  "cacheSizeGuard s =
     (if length (cachedStatements s) > cacheRecordMaximum then freeCache s else s)"

text \<open>
  \<^verbatim>\<open>runCommand\<close> and \<^verbatim>\<open>runQuery\<close>: every path of the executor settles the promise
  exactly once, so the result is the settled promise and the state.
\<close>

definition runCommand ::
  "engine \<Rightarrow> jsstring \<Rightarrow> jsvalue list \<Rightarrow> DatabaseWrapper \<Rightarrow> RunResult settled \<times> DatabaseWrapper" where
  "runCommand eng query params s =
     (case retrieveCache query s of
        Some cached \<Rightarrow>
          (case statementRun eng (engineCalls s) cached params of
             Inl m \<Rightarrow> (Rejected (SqlError m), sent (StatementRun cached params) s)
           | Inr result \<Rightarrow> (Fulfilled result, sent (StatementRun cached params) s))
      | None \<Rightarrow>
          (case dbPrepare eng (engineCalls s) query of
             Inl m \<Rightarrow> (Rejected (SqlError m), sent (DbPrepare query) s)
           | Inr statement \<Rightarrow>
               let s1 = sent (DbPrepare query) s in
               (case statementRun eng (engineCalls s1) statement params of
                  Inl m \<Rightarrow> (Rejected (SqlError m), sent (StatementRun statement params) s1)
                | Inr result \<Rightarrow>
                    (Fulfilled result,
                     recordCache query statement
                       (cacheSizeGuard (sent (StatementRun statement params) s1))))))"

definition runQuery ::
  "engine \<Rightarrow> jsstring \<Rightarrow> jsvalue list \<Rightarrow> DatabaseWrapper \<Rightarrow> QueryResult list settled \<times> DatabaseWrapper" where
  "runQuery eng query params s =
     (case retrieveCache query s of
        Some cached \<Rightarrow>
          (case statementAll eng (engineCalls s) cached params of
             Inl m \<Rightarrow> (Rejected (SqlError m), sent (StatementAll cached params) s)
           | Inr result \<Rightarrow> (Fulfilled result, sent (StatementAll cached params) s))
      | None \<Rightarrow>
          (case dbPrepare eng (engineCalls s) query of
             Inl m \<Rightarrow> (Rejected (SqlError m), sent (DbPrepare query) s)
           | Inr statement \<Rightarrow>
               let s1 = sent (DbPrepare query) s in
               (case statementAll eng (engineCalls s1) statement params of
                  Inl m \<Rightarrow> (Rejected (SqlError m), sent (StatementAll statement params) s1)
                | Inr result \<Rightarrow>
                    (Fulfilled result,
                     recordCache query statement
                       (cacheSizeGuard (sent (StatementAll statement params) s1))))))"

section \<open>Building the SQL text\<close>

text \<open>
  \<^verbatim>\<open>getConditionStr\<close>. The callback of \<^verbatim>\<open>map\<close> throws at the first condition, in
  order, whose column name fails the identifier check; otherwise it gives the text of
  the condition, with the connective of the condition itself from index 1 on. The
  texts are joined with the empty separator.
\<close>

definition conditionText :: "nat \<Rightarrow> WhereConditionItemType \<Rightarrow> jsstring" where
  "conditionText index condition =
     js '' '' @ (if index \<ge> 1 then connectiveText (logicalOperator condition) else js [])
     @ js '' ('' @ key condition @ js '' '' @ comparisonText (operator condition) @ js '' ?)''"

fun mapConditions :: "nat \<Rightarrow> WhereConditionItemType list \<Rightarrow> error + jsstring list" where
  "mapConditions index [] = Inr []"
| "mapConditions index (condition # conditions) =
     (if \<not> checkSqlQueryIdentifierName (key condition)
      then Inl (InvalidColumnName (key condition))
      else (case mapConditions (Suc index) conditions of
              Inl e \<Rightarrow> Inl e
            | Inr texts \<Rightarrow> Inr (conditionText index condition # texts)))"

definition getConditionStr :: "WhereConditionItemType list \<Rightarrow> error + jsstring" where
  "getConditionStr conditions =
     (if length conditions = 0 then Inr (js [])
      else (case mapConditions 0 conditions of
              Inl e \<Rightarrow> Inl e
            | Inr texts \<Rightarrow> Inr (js '' WHERE '' @ join (js []) texts)))"

text \<open>
  The query and the parameters \<^verbatim>\<open>select\<close> hands to \<^verbatim>\<open>runQuery\<close>, built in the
  order of the source: the base text, the compared values, the conditions (which may
  throw), then \<^verbatim>\<open>LIMIT\<close> and \<^verbatim>\<open>OFFSET\<close>, each with its value pushed on the parameters.
\<close>

definition selectQuery ::
  "jsstring \<Rightarrow> jsstring list \<Rightarrow> WhereConditionItemType list \<Rightarrow> jsnumber \<Rightarrow> jsnumber
   \<Rightarrow> error + jsstring \<times> jsvalue list" where
  "selectQuery tableName columns conditions limit offset =
     (let queryStr = js ''SELECT '' @ join (js '','') columns @ js '' FROM '' @ tableName;
          param = map compared conditions
      in case (if length conditions > 0 then getConditionStr conditions else Inr (js [])) of
           Inl e \<Rightarrow> Inl e
         | Inr conditionStr \<Rightarrow>
             let queryStr1 = queryStr @ conditionStr;
                 (queryStr2, param2) =
                   (if gt0 limit then (queryStr1 @ js '' LIMIT ?'', param @ [VNumber limit])
                    else (queryStr1, param));
                 (queryStr3, param3) =
                   (if gt0 offset then (queryStr2 @ js '' OFFSET ?'', param2 @ [VNumber offset])
                    else (queryStr2, param2))
             in Inr (queryStr3, param3))"

text \<open>
  The text \<^verbatim>\<open>insert\<close> hands to \<^verbatim>\<open>runCommand\<close>, for a first row and all rows. A key
  of the first row that fails the identifier check makes the callback return a
  rejected promise, which \<^verbatim>\<open>join\<close> prints as \<^verbatim>\<open>[object Promise]\<close>. An empty
  conflict key is falsy.
\<close>

definition insertColumnsStr :: "jsstring \<Rightarrow> TableFrameDataType \<Rightarrow> jsstring" where
  "insertColumnsStr tableName firstRow =
     js ''INSERT INTO '' @ tableName @ js '' (''
     @ join (js '', '')
         (map (\<lambda>k. if \<not> checkSqlQueryIdentifierName k then js ''[object Promise]'' else k)
            (map fst firstRow))
     @ js '')''"

definition insertValuesStr :: "TableFrameDataType list \<Rightarrow> jsstring" where
  "insertValuesStr dataFrame =
     join (js '', '')
       (map (\<lambda>item. js '' VALUES ('' @ join (js '', '') (replicate (length item) (js ''?'')) @ js '')'')
          dataFrame)"

definition insertOptionStr :: "conflictType option \<Rightarrow> jsstring" where
  "insertOptionStr conflict =
     (case conflict of
        None \<Rightarrow> js []
      | Some c \<Rightarrow>
          js '' ON CONFLICT ''
          @ (case conflictKey c of
               None \<Rightarrow> js []
             | Some k \<Rightarrow> if k = [] then js [] else js ''('' @ k @ js '')'')
          @ js '' DO '' @ conflictActionText (action c))"

text \<open>
  The \<^verbatim>\<open>CREATE TABLE\<close> command of \<^verbatim>\<open>prepareTable\<close>. Each column is first written
  on five lines (the template of the source, with its indentation of 28 blanks); the
  lines are then split, trimmed, the empty ones dropped and the rest joined by one
  blank. \<^verbatim>\<open>JSON.stringify\<close> belongs to the host and is the parameter \<open>stringify\<close>.
\<close>

fun split :: "jschar \<Rightarrow> jsstring \<Rightarrow> jsstring list" where
  "split d [] = [[]]"
| "split d (c # cs) =
     (if c = d then [] # split d cs
      else (case split d cs of [] \<Rightarrow> [[c]] | x # xs \<Rightarrow> (c # x) # xs))"

definition trim :: "jsstring \<Rightarrow> jsstring" where
  "trim s = rev (dropWhile isWhiteSpace (rev (dropWhile isWhiteSpace s)))"

definition columnTemplate :: "(jsvalue \<Rightarrow> jsstring) \<Rightarrow> jsstring \<Rightarrow> columnType \<Rightarrow> jsstring" where
  "columnTemplate stringify k column =
     (let indent = js ''\<newline>                            '' in
      k @ js '' '' @ dataTypeText (sqlType column)
      @ indent @ (if notNull column then js ''NOT NULL'' else js [])
      @ indent @ (if primaryKey column then js ''PRIMARY KEY'' else js [])
      @ indent @ (case defaultValue column of
                    None \<Rightarrow> js []
                  | Some v \<Rightarrow> js ''DEFAULT '' @ stringify v)
      @ indent @ (case foreignKey column of
                    None \<Rightarrow> js []
                  | Some fk \<Rightarrow>
                      js ''REFERENCES '' @ references fk @ js ''('' @ referencedColumn fk
                      @ js '') ON DELETE ''
                      @ referentialActionText (case onDelete fk of None \<Rightarrow> NO_ACTION | Some a \<Rightarrow> a)
                      @ js '' ON UPDATE ''
                      @ referentialActionText (case onUpdate fk of None \<Rightarrow> NO_ACTION | Some a \<Rightarrow> a)))"

definition joinLines :: "jsstring \<Rightarrow> jsstring" where
  "joinLines l = join (js '' '') (filter (\<lambda>r. r \<noteq> []) (map trim (split 0x0A l)))"

definition createTableCommand ::
  "(jsvalue \<Rightarrow> jsstring) \<Rightarrow> jsstring \<Rightarrow> TableFrameInitType \<Rightarrow> jsstring" where
  "createTableCommand stringify tableName frame =
     js ''CREATE TABLE IF NOT EXISTS '' @ tableName @ js '' (''
     @ join (js '', '') (map (\<lambda>(k, column). joinLines (columnTemplate stringify k column)) frame)
     @ js '')''"

section \<open>The operations of the wrapper\<close>

text \<open>
  A check of a name inside an executor: \<^verbatim>\<open>if (!checkSqlQueryIdentifierName(x)) reject(...)\<close>
  with no \<^verbatim>\<open>return\<close>, so the executor goes on whatever the check says.
\<close>

definition checkTableName :: "jsstring \<Rightarrow> 'a settled option \<Rightarrow> 'a settled option" where
  "checkTableName tableName p =
     (if \<not> checkSqlQueryIdentifierName tableName then reject (InvalidTableName tableName) p else p)"

definition checkColumnNames :: "jsstring list \<Rightarrow> 'a settled option \<Rightarrow> 'a settled option" where
  "checkColumnNames columns p =
     fold (\<lambda>c q. if \<not> checkSqlQueryIdentifierName c then reject (InvalidColumnName c) q else q)
       columns p"

text \<open>
  \<^verbatim>\<open>isTableExist\<close>: the query on \<^verbatim>\<open>sqlite_master\<close>, sent through \<^verbatim>\<open>runQuery\<close> with the
  table name as its one parameter. The answer is whether the first value of the first
  row is the number 1; with no row \<^verbatim>\<open>Object.keys(undefined)\<close> throws and the promise of
  the \<^verbatim>\<open>async\<close> function is rejected.
\<close>

definition isTableExistQuery :: jsstring where
  "isTableExistQuery = js ''\<newline>            SELECT EXISTS(\<newline>                SELECT 1 \<newline>                FROM sqlite_master \<newline>                WHERE type='table' AND name= ?\<newline>            );\<newline>        ''"

definition isTableExist ::
  "engine \<Rightarrow> jsstring \<Rightarrow> DatabaseWrapper \<Rightarrow> bool settled \<times> DatabaseWrapper" where
  "isTableExist eng tableName s =
     (case runQuery eng isTableExistQuery [VString tableName] s of
        (Rejected e, s') \<Rightarrow> (Rejected e, s')
      | (Fulfilled rows, s') \<Rightarrow>
          (case rows of
             [] \<Rightarrow> (Rejected TypeError, s')
           | result # _ \<Rightarrow>
               (Fulfilled (case result of [] \<Rightarrow> False | (k, v) # _ \<Rightarrow> v = VNumber (Finite 1)), s')))"

text \<open>
  \<^verbatim>\<open>prepareTable\<close>. Neither \<^verbatim>\<open>reject\<close> ends the executor: the command is built and
  sent with \<^verbatim>\<open>db.run\<close> in every case, the frame is stored in the registry after the
  \<^verbatim>\<open>try\<close>, and the final \<^verbatim>\<open>resolve()\<close> settles the promise only if nothing rejected it
  before.
\<close>

definition prepareTable ::
  "engine \<Rightarrow> (jsvalue \<Rightarrow> jsstring) \<Rightarrow> jsstring \<Rightarrow> TableFrameInitType \<Rightarrow> DatabaseWrapper
   \<Rightarrow> unit settled option \<times> DatabaseWrapper" where
  "prepareTable eng stringify tableName frame s =
     (let p1 = checkTableName tableName None;
          p2 = checkColumnNames (map fst frame) p1;
          command = createTableCommand stringify tableName frame;
          p3 = (case dbRun eng (engineCalls s) command of
                  Some m \<Rightarrow> reject (FailedToPrepareTable m) p2
                | None \<Rightarrow> p2);
          s1 = sent (DbRun command) s;
          s2 = s1\<lparr>tables := (tables s1)(tableName \<mapsto> frame)\<rparr>
      in (resolve () p3, s2))"

text \<open>
  The registry is an object literal used as a dictionary, so the test
  \<^verbatim>\<open>!this.tables[tableName]\<close> also finds what the object inherits from
  \<^verbatim>\<open>Object.prototype\<close>: for the twelve names below the lookup gives a function or an
  object, which is truthy, and the table counts as registered. (Assigning to the key
  \<^verbatim>\<open>__proto__\<close> replaces the prototype instead of adding a property; the lookup of that
  key gives the frame all the same, and the assignment is modelled as an entry.)
\<close>

definition objectPrototypeNames :: "jsstring list" where
  "objectPrototypeNames =
     map js [''constructor'', ''__defineGetter__'', ''__defineSetter__'', ''hasOwnProperty'',
             ''__lookupGetter__'', ''__lookupSetter__'', ''isPrototypeOf'',
             ''propertyIsEnumerable'', ''toString'', ''valueOf'', ''__proto__'',
             ''toLocaleString'']"

definition registered :: "DatabaseWrapper \<Rightarrow> jsstring \<Rightarrow> bool" where
  "registered s tableName =
     (case tables s tableName of
        Some frame \<Rightarrow> True
      | None \<Rightarrow> tableName \<in> set objectPrototypeNames)"

text \<open>
  \<^verbatim>\<open>deleteTable\<close>: the registry entry is removed and the promise resolved inside the
  \<^verbatim>\<open>try\<close>, after \<^verbatim>\<open>db.run\<close>.
\<close>

definition deleteTable ::
  "engine \<Rightarrow> jsstring \<Rightarrow> DatabaseWrapper \<Rightarrow> unit settled option \<times> DatabaseWrapper" where
  "deleteTable eng tableName s =
     (let p1 = (if \<not> registered s tableName then reject (TableDoesNotExist tableName) None
                else None);
          p2 = checkTableName tableName p1;
          command = js ''DROP TABLE IF EXISTS '' @ tableName;
          s1 = sent (DbRun command) s
      in case dbRun eng (engineCalls s) command of
           None \<Rightarrow> (resolve () p2, s1\<lparr>tables := (tables s1)(tableName := None)\<rparr>)
         | Some m \<Rightarrow> (reject (FailedToDeleteTable m) p2, s1))"

text \<open>
  \<^verbatim>\<open>select\<close> awaits \<^verbatim>\<open>isTableExist\<close> and throws when the answer is false; a rejection
  of the awaited promise rejects the promise of \<^verbatim>\<open>select\<close> with the same reason. An
  error thrown while the query is built rejects the promise if it is still pending.
\<close>

definition select ::
  "engine \<Rightarrow> jsstring \<Rightarrow> jsstring list \<Rightarrow> WhereConditionItemType list \<Rightarrow> jsnumber \<Rightarrow> jsnumber
   \<Rightarrow> DatabaseWrapper \<Rightarrow> QueryResult list settled option \<times> DatabaseWrapper" where
  "select eng tableName columns conditions limit offset s =
     (case isTableExist eng tableName s of
        (Rejected e, s1) \<Rightarrow> (Some (Rejected e), s1)
      | (Fulfilled False, s1) \<Rightarrow> (Some (Rejected (TableNotFound tableName)), s1)
      | (Fulfilled True, s1) \<Rightarrow>
          (let p1 = checkTableName tableName None;
               p2 = checkColumnNames columns p1
           in case selectQuery tableName columns conditions limit offset of
                Inl e \<Rightarrow> (reject e p2, s1)
              | Inr (queryStr, param) \<Rightarrow>
                  (case runQuery eng queryStr param s1 of
                     (Fulfilled result, s2) \<Rightarrow> (resolve result p2, s2)
                   | (Rejected e, s2) \<Rightarrow> (reject (FailedToFetch tableName e) p2, s2))))"

text \<open>
  \<^verbatim>\<open>insert\<close> is not \<^verbatim>\<open>async\<close>: it returns a promise (\<open>Inr\<close>) or throws (\<open>Inl\<close>).
  \<^verbatim>\<open>isTableExist\<close> is called, so its query is sent, but the test is made on the promise
  itself, which is truthy: the first \<^verbatim>\<open>return\<close> is never taken. With no row,
  \<^verbatim>\<open>Object.keys(dataFrame[0])\<close> throws. \<^verbatim>\<open>runCommand\<close> never throws, so the \<^verbatim>\<open>catch\<close> of
  the source is not reached.
\<close>

definition insert_rows ::
  "engine \<Rightarrow> jsstring \<Rightarrow> TableFrameDataType list \<Rightarrow> conflictType option \<Rightarrow> DatabaseWrapper
   \<Rightarrow> (error + RunResult settled) \<times> DatabaseWrapper" where
  "insert_rows eng tableName dataFrame conflict s =
     (let s1 = snd (isTableExist eng tableName s) in
      if \<not> checkSqlQueryIdentifierName tableName
      then (Inr (Rejected (InvalidTableName tableName)), s1)
      else (case dataFrame of
              [] \<Rightarrow> (Inl TypeError, s1)
            | firstRow # _ \<Rightarrow>
                (let queryStr = insertColumnsStr tableName firstRow;
                     valuesStr = insertValuesStr dataFrame;
                     optionStr = insertOptionStr conflict
                 in case runCommand eng (queryStr @ valuesStr @ optionStr)
                           (concat (map (map snd) dataFrame)) s1 of
                      (r, s2) \<Rightarrow> (Inr r, s2))))"

text \<open>\<^verbatim>\<open>update\<close> consults the registry; its checks do not end the executor either.\<close>

definition update ::
  "engine \<Rightarrow> jsstring \<Rightarrow> TableFrameDataType \<Rightarrow> WhereConditionItemType list \<Rightarrow> DatabaseWrapper
   \<Rightarrow> RunResult settled option \<times> DatabaseWrapper" where
  "update eng tableName dataFrame conditions s =
     (let p1 = (if \<not> registered s tableName then reject (TableDoesNotExist tableName) None
                else None);
          p2 = checkTableName tableName p1;
          keys = map fst dataFrame;
          vals = map snd dataFrame;
          p3 = checkColumnNames keys p2;
          setStr = js ''UPDATE '' @ tableName @ js '' SET ''
                   @ join (js '', '') (map (\<lambda>k. k @ js '' = ?'') keys)
      in case getConditionStr conditions of
           Inl e \<Rightarrow> (reject e p3, s)
         | Inr conditionStr \<Rightarrow>
             (case runCommand eng (setStr @ conditionStr) (vals @ map compared conditions) s of
                (Fulfilled result, s1) \<Rightarrow> (resolve result p3, s1)
              | (Rejected e, s1) \<Rightarrow> (reject (FailedToUpdate tableName e) p3, s1)))"

text \<open>
  \<^verbatim>\<open>delete\<close> calls \<^verbatim>\<open>isTableExist\<close> without awaiting it: the query is sent, and the
  test \<^verbatim>\<open>!this.isTableExist(tableName)\<close> is made on the promise, which is truthy, so
  the answer of the catalog is never looked at.
\<close>

definition delete ::
  "engine \<Rightarrow> jsstring \<Rightarrow> WhereConditionItemType list \<Rightarrow> DatabaseWrapper
   \<Rightarrow> RunResult settled option \<times> DatabaseWrapper" where
  "delete eng tableName conditions s =
     (let s1 = snd (isTableExist eng tableName s);
          p1 = checkTableName tableName None
      in case getConditionStr conditions of
           Inl e \<Rightarrow> (reject e p1, s1)
         | Inr conditionStr \<Rightarrow>
             (case runCommand eng (js ''DELETE FROM '' @ tableName @ conditionStr)
                     (map compared conditions) s1 of
                (Fulfilled result, s2) \<Rightarrow> (resolve result p1, s2)
              | (Rejected e, s2) \<Rightarrow> (reject (FailedToDelete tableName e) p1, s2)))"

section \<open>Runs and example engines\<close>

text \<open>
  A sequence of statements run through the cache, one \<^verbatim>\<open>runCommand\<close> after the other,
  and the queries \<^verbatim>\<open>SELECT 1\<close>, \<^verbatim>\<open>SELECT 11\<close>, \<^verbatim>\<open>SELECT 111\<close> and so on, which are
  pairwise distinct SQL texts.
\<close>

definition runCommands :: "engine \<Rightarrow> jsstring list \<Rightarrow> DatabaseWrapper \<Rightarrow> DatabaseWrapper" where
  "runCommands eng queries s = fold (\<lambda>query s'. snd (runCommand eng query [] s')) queries s"

definition exampleQuery :: "nat \<Rightarrow> jsstring" where
  "exampleQuery i = js ''SELECT '' @ replicate (Suc i) 0x31"

definition exampleQueries :: "nat \<Rightarrow> jsstring list" where
  "exampleQueries n = map exampleQuery [0..<n]"

text \<open>
  The wrapper as its constructor leaves it: no table registered, no statement cached,
  and the one command of \<^verbatim>\<open>enableForeignKeys\<close> sent.
\<close>

definition initialWrapper :: DatabaseWrapper where
  "initialWrapper =
     \<lparr>tables = Map.empty, cachedStatements = [],
      engineCalls = [DbRun (js ''PRAGMA foreign_keys = ON;'')]\<rparr>"

text \<open>
  Engines for the examples. \<open>acceptingEngine\<close> accepts every call, numbers a statement
  by the position of its \<^verbatim>\<open>prepare\<close> among the calls, and answers every query with one
  row holding the number 1 (for \<^verbatim>\<open>isTableExist\<close>: the table is in the catalog).
  \<open>absentEngine\<close> differs in the row, which holds 0 (the table is not in the catalog).
  \<open>failingEngine\<close> differs in \<^verbatim>\<open>db.run\<close>, which throws.
\<close>

definition acceptingEngine :: engine where
  "acceptingEngine =
     \<lparr>dbRun = (\<lambda>calls command. None),
      dbPrepare = (\<lambda>calls query. Inr (length calls)),
      statementRun = (\<lambda>calls statement params. Inr \<lparr>changes = 1, lastInsertRowid = 1\<rparr>),
      statementAll = (\<lambda>calls statement params. Inr [[(js ''found'', VNumber (Finite 1))]])\<rparr>"

definition absentEngine :: engine where
  "absentEngine =
     acceptingEngine
       \<lparr>statementAll := (\<lambda>calls statement params. Inr [[(js ''found'', VNumber (Finite 0))]])\<rparr>"

definition failingEngine :: engine where
  "failingEngine = acceptingEngine\<lparr>dbRun := (\<lambda>calls command. Some (js ''disk I/O error''))\<rparr>"

text \<open>
  A stand-in for \<^verbatim>\<open>JSON.stringify\<close> in the examples, whose columns have no default
  value, so that it is never applied.
\<close>

definition exampleStringify :: "jsvalue \<Rightarrow> jsstring" where
  "exampleStringify v = js ''null''"

definition idColumn :: columnType where
  "idColumn =
     \<lparr>sqlType = INTEGER, primaryKey = True, notNull = False, defaultValue = None,
      foreignKey = None\<rparr>"

section \<open>Properties of the identifier check\<close>

lemmas charClass_defs =
  inRange_def isWhiteSpace_def isLetter_def isDigit_def identChar_def tupleChar_def

lemmas validator_defs =
  checkSqlQueryIdentifierName_def allowedChars_def singleStar_def allowTuple_def

lemma identChar_iff:
  "identChar c = (isLetter c \<or> isDigit c \<or> c = 0x5F \<or> isWhiteSpace c)"
  by (auto simp: identChar_def isLetter_def isDigit_def)

text \<open>
  Claim C2: every string that contains a semicolon, a single quote or the comment marker
  \<^verbatim>\<open>--\<close> is refused by the identifier check. The code does not do that: \<^verbatim>\<open>singleStar\<close>
  is not anchored at the start, so a string that ends in \<^verbatim>\<open>*\<close> is accepted whatever
  comes before the star. Here the check is evaluated on a string that holds all three
  markers.
\<close>

theorem C2_validator_accepts_injection_before_star:
  "checkSqlQueryIdentifierName (js ''x'; DROP TABLE users; --*'') = True"
  by (simp add: validator_defs js_def)

text \<open>
  Away from the trailing star the check does refuse them: a string that is accepted and
  does not end in \<^verbatim>\<open>*\<close> holds no semicolon, no single quote and no hyphen.
\<close>

lemma validator_refuses_markers_without_star:
  assumes "checkSqlQueryIdentifierName s" and "\<not> singleStar s"
  shows "0x3B \<notin> set s \<and> 0x27 \<notin> set s \<and> 0x2D \<notin> set s"
proof -
  have ident: "\<not> identChar c" and tuple: "\<not> tupleChar c"
    if "c = 0x3B \<or> c = 0x27 \<or> c = 0x2D" for c :: jschar
    using that by (auto simp: charClass_defs)
  from assms have "allowedChars s \<or> allowTuple s"
    by (simp add: checkSqlQueryIdentifierName_def)
  then show ?thesis
  proof
    assume "allowedChars s"
    then have "\<forall>c\<in>set s. identChar c"
      by (simp add: allowedChars_def list_all_iff)
    with ident show ?thesis by blast
  next
    assume "allowTuple s"
    then obtain r where s: "s = 0x28 # r" and r: "r \<noteq> []" "last r = 0x29"
      and mid: "list_all tupleChar (butlast r)"
      by (auto simp: allowTuple_def split: list.splits)
    from r(1) obtain ys y where ys: "r = ys @ [y]"
      by (cases r rule: rev_cases) auto
    with r(2) mid have "y = 0x29" and "\<forall>c\<in>set ys. tupleChar c"
      by (simp_all add: list_all_iff)
    with s ys tuple show ?thesis by auto
  qed
qed

text \<open>
  Claim C9, as stated (the empty string is accepted), fails: \<^verbatim>\<open>allowedChars\<close> asks for
  one character at least (\<^verbatim>\<open>+\<close>), and neither of the other two expressions matches
  the empty string.
\<close>

theorem C9_empty_string_refused:
  "list_all (\<lambda>c. isLetter c \<or> isDigit c \<or> c = 0x5F \<or> isWhiteSpace c) (js [])
   \<and> \<not> checkSqlQueryIdentifierName (js [])"
  by (simp add: validator_defs js_def)

text \<open>
  Claim C9, amended: every non-empty string composed solely of ASCII letters, ASCII
  digits, underscore and whitespace is accepted by the identifier check.
\<close>

theorem C9_validator_accepts_plain_names:
  assumes "s \<noteq> []"
    and "list_all (\<lambda>c. isLetter c \<or> isDigit c \<or> c = 0x5F \<or> isWhiteSpace c) s"
  shows "checkSqlQueryIdentifierName s"
proof -
  from assms(2) have "list_all identChar s"
    by (simp add: list_all_iff identChar_iff)
  with assms(1) have "allowedChars s"
    by (simp add: allowedChars_def)
  then show ?thesis
    by (simp add: checkSqlQueryIdentifierName_def)
qed

theorem C9_validator_accepts_plain_names_witness:
  "js ''student_id 2'' \<noteq> []
   \<and> list_all (\<lambda>c. isLetter c \<or> isDigit c \<or> c = 0x5F \<or> isWhiteSpace c) (js ''student_id 2'')
   \<and> checkSqlQueryIdentifierName (js ''student_id 2'')"
proof -
  have ne: "js ''student_id 2'' \<noteq> []"
    by (simp add: js_def)
  have cls: "list_all (\<lambda>c. isLetter c \<or> isDigit c \<or> c = 0x5F \<or> isWhiteSpace c)
               (js ''student_id 2'')"
    by (simp add: js_def charClass_defs)
  from C9_validator_accepts_plain_names [OF ne cls] ne cls show ?thesis by simp
qed

section \<open>Properties of the statement cache\<close>

lemma sent_simps [simp]:
  "engineCalls (sent c s) = engineCalls s @ [c]"
  "cachedStatements (sent c s) = cachedStatements s"
  "tables (sent c s) = tables s"
  by (simp_all add: sent_def)

lemma cacheSizeGuard_bound:
  "length (cachedStatements (cacheSizeGuard s)) \<le> cacheRecordMaximum"
  by (simp add: cacheSizeGuard_def freeCache_def)

lemma cacheSizeGuard_evicts_all:
  assumes "length (cachedStatements s) > cacheRecordMaximum"
  shows "cachedStatements (cacheSizeGuard s) = []"
    and "engineCalls (cacheSizeGuard s) =
           engineCalls s @ map (\<lambda>(q, statement). StatementFinalize statement) (cachedStatements s)"
  using assms by (simp_all add: cacheSizeGuard_def freeCache_def)

lemma cacheSizeGuard_keeps:
  assumes "length (cachedStatements s) \<le> cacheRecordMaximum"
  shows "cacheSizeGuard s = s"
  using assms by (simp add: cacheSizeGuard_def)

lemma update_absent_appends:
  "map_of al k = None \<Longrightarrow> AList.update k v al = al @ [(k, v)]"
  by (induction al) (auto split: if_splits)

lemma runCommand_miss:
  assumes "retrieveCache query s = None"
    and "dbPrepare eng (engineCalls s) query = Inr statement"
    and "statementRun eng (engineCalls s @ [DbPrepare query]) statement params = Inr result"
    and "length (cachedStatements s) \<le> cacheRecordMaximum"
  shows "cachedStatements (snd (runCommand eng query params s)) = cachedStatements s @ [(query, statement)]"
  using assms
  by (simp add: runCommand_def Let_def cacheSizeGuard_def recordCache_def retrieveCache_def
      update_absent_appends)

lemma runQuery_miss:
  assumes "retrieveCache query s = None"
    and "dbPrepare eng (engineCalls s) query = Inr statement"
    and "statementAll eng (engineCalls s @ [DbPrepare query]) statement params = Inr result"
    and "length (cachedStatements s) \<le> cacheRecordMaximum"
  shows "cachedStatements (snd (runQuery eng query params s)) = cachedStatements s @ [(query, statement)]"
  using assms
  by (simp add: runQuery_def Let_def cacheSizeGuard_def recordCache_def retrieveCache_def
      update_absent_appends)

lemma runCommand_cache_bound:
  "length (cachedStatements (snd (runCommand eng query params s)))
     \<le> max (length (cachedStatements s)) (Suc cacheRecordMaximum)"
  by (auto simp: runCommand_def Let_def cacheSizeGuard_def recordCache_def retrieveCache_def
      freeCache_def update_absent_appends split: option.splits sum.splits)

lemma runCommands_accepting:
  assumes "distinct queries"
    and "set queries \<inter> fst ` set (cachedStatements s) = {}"
    and "length (cachedStatements s) + length queries \<le> Suc cacheRecordMaximum"
  shows "map fst (cachedStatements (runCommands acceptingEngine queries s))
           = map fst (cachedStatements s) @ queries"
  using assms
proof (induction queries arbitrary: s)
  case Nil
  then show ?case by (simp add: runCommands_def)
next
  case (Cons q queries)
  let ?s' = "snd (runCommand acceptingEngine q [] s)"
  from Cons.prems(2) have miss: "retrieveCache q s = None"
    by (auto simp: retrieveCache_def map_of_eq_None_iff)
  from Cons.prems(3) have len: "length (cachedStatements s) \<le> cacheRecordMaximum"
    by simp
  have step: "cachedStatements ?s' = cachedStatements s @ [(q, length (engineCalls s))]"
    by (rule runCommand_miss [OF miss _ _ len]) (simp_all add: acceptingEngine_def)
  have "map fst (cachedStatements (runCommands acceptingEngine queries ?s'))
          = map fst (cachedStatements ?s') @ queries"
  proof (rule Cons.IH)
    show "distinct queries" using Cons.prems(1) by simp
    show "set queries \<inter> fst ` set (cachedStatements ?s') = {}"
      using Cons.prems(1,2) by (auto simp: step)
    show "length (cachedStatements ?s') + length queries \<le> Suc cacheRecordMaximum"
      using Cons.prems(3) by (simp add: step)
  qed
  then show ?case
    by (simp add: runCommands_def step)
qed

lemma inj_exampleQuery: "inj exampleQuery"
proof (rule injI)
  fix i j assume "exampleQuery i = exampleQuery j"
  then have "length (exampleQuery i) = length (exampleQuery j)" by simp
  then show "i = j" by (simp add: exampleQuery_def)
qed

lemma distinct_exampleQueries: "distinct (exampleQueries n)"
  using inj_exampleQuery by (simp add: exampleQueries_def distinct_map inj_on_def)

lemma length_exampleQueries: "length (exampleQueries n) = n"
  by (simp add: exampleQueries_def)

text \<open>
  The check runs before the insertion, so the insertion that follows a check which
  evicted nothing can bring the cache to 513 statements: here 513 distinct statements
  are run from the initial state, and all of them are in the cache afterwards.
\<close>

lemma keys_after_513:
  "map fst (cachedStatements (runCommands acceptingEngine (exampleQueries 513) initialWrapper))
     = exampleQueries 513"
proof -
  have empty: "cachedStatements initialWrapper = []"
    by (simp add: initialWrapper_def)
  have "map fst (cachedStatements (runCommands acceptingEngine (exampleQueries 513) initialWrapper))
          = map fst (cachedStatements initialWrapper) @ exampleQueries 513"
  proof (rule runCommands_accepting)
    show "distinct (exampleQueries 513)"
      by (rule distinct_exampleQueries)
    show "set (exampleQueries 513) \<inter> fst ` set (cachedStatements initialWrapper) = {}"
      by (simp add: empty)
    show "length (cachedStatements initialWrapper) + length (exampleQueries 513)
            \<le> Suc cacheRecordMaximum"
      by (simp add: empty length_exampleQueries cacheRecordMaximum_def)
  qed
  then show ?thesis by (simp add: empty)
qed

lemma cache_holds_513_statements:
  "length (cachedStatements (runCommands acceptingEngine (exampleQueries 513) initialWrapper)) = 513"
proof -
  have "length (map fst (cachedStatements
            (runCommands acceptingEngine (exampleQueries 513) initialWrapper)))
          = length (exampleQueries 513)"
    by (simp only: keys_after_513)
  then show ?thesis
    by (simp add: length_exampleQueries)
qed

text \<open>
  Claim C3: for every sequence of statement preparations performed through the cache the
  number of resident statements never exceeds the maximum of 512 once an insertion and
  its eviction check are done, the cache being evicted whole when its size exceeds the
  maximum. The code checks before it inserts, and tests \<^verbatim>\<open>size > 512\<close>: the check before
  the 513th insertion sees 512 statements and evicts nothing, so 513 statements are
  resident when \<^verbatim>\<open>runCommand\<close> returns, one more than \<^verbatim>\<open>cacheRecordMaximum\<close>, and they
  stay until the next statement that is not cached. Here 513 distinct statements are run
  from the initial state.
\<close>

theorem C3_cache_holds_513_statements:
  "length (cachedStatements (runCommands acceptingEngine (exampleQueries 513) initialWrapper)) = 513
   \<and> cacheRecordMaximum = 512"
  using cache_holds_513_statements by (simp add: cacheRecordMaximum_def)

text \<open>
  The same from any state with 512 cached statements, through \<^verbatim>\<open>runCommand\<close> and
  through \<^verbatim>\<open>runQuery\<close>.
\<close>

lemma runCommand_from_512:
  assumes "retrieveCache query s = None"
    and "dbPrepare eng (engineCalls s) query = Inr statement"
    and "statementRun eng (engineCalls s @ [DbPrepare query]) statement params = Inr result"
    and "length (cachedStatements s) = cacheRecordMaximum"
  shows "length (cachedStatements (snd (runCommand eng query params s))) = Suc cacheRecordMaximum"
  using runCommand_miss [OF assms(1,2,3)] assms(4) by simp

lemma runQuery_from_512:
  assumes "retrieveCache query s = None"
    and "dbPrepare eng (engineCalls s) query = Inr statement"
    and "statementAll eng (engineCalls s @ [DbPrepare query]) statement params = Inr result"
    and "length (cachedStatements s) = cacheRecordMaximum"
  shows "length (cachedStatements (snd (runQuery eng query params s))) = Suc cacheRecordMaximum"
  using runQuery_miss [OF assms(1,2,3)] assms(4) by simp

lemma miss_after_513:
  "retrieveCache (exampleQuery 513)
     (runCommands acceptingEngine (exampleQueries 513) initialWrapper) = None"
proof -
  have fresh: "exampleQuery 513 \<notin> set (exampleQueries 513)"
  proof
    assume "exampleQuery 513 \<in> set (exampleQueries 513)"
    then obtain i where i: "i < 513" "exampleQuery 513 = exampleQuery i"
      by (auto simp: exampleQueries_def)
    from injD [OF inj_exampleQuery i(2)] i(1) show False
      by simp
  qed
  have "exampleQuery 513 \<notin> set (map fst
      (cachedStatements (runCommands acceptingEngine (exampleQueries 513) initialWrapper)))"
    unfolding keys_after_513 by (rule fresh)
  then show ?thesis
    by (simp add: retrieveCache_def map_of_eq_None_iff)
qed

text \<open>
  The eviction check of \<^verbatim>\<open>runCommand\<close> is the call of \<^verbatim>\<open>cacheSizeGuard\<close>, made once a
  statement that was not cached has been prepared and run, and before that statement is
  inserted: \<open>checked\<close> is the state the check leaves, and \<^verbatim>\<open>recordCache\<close> then inserts
  the new statement into it. The check leaves at most 512 statements, and it evicts all
  of them or none.
\<close>

lemma eviction_check_bounds_cache:
  assumes "retrieveCache query s = None"
    and "dbPrepare eng (engineCalls s) query = Inr statement"
    and "statementRun eng (engineCalls s @ [DbPrepare query]) statement params = Inr result"
  shows "\<exists>checked.
           snd (runCommand eng query params s) = recordCache query statement checked
           \<and> length (cachedStatements checked) \<le> 512
           \<and> (512 < length (cachedStatements s) \<longrightarrow>
                cachedStatements checked = []
                \<and> engineCalls checked =
                    engineCalls s @ [DbPrepare query, StatementRun statement params]
                    @ map (\<lambda>(q, cached). StatementFinalize cached) (cachedStatements s))
           \<and> (length (cachedStatements s) \<le> 512 \<longrightarrow>
                cachedStatements checked = cachedStatements s
                \<and> engineCalls checked =
                    engineCalls s @ [DbPrepare query, StatementRun statement params])"
proof (intro exI conjI impI)
  let ?checked = "cacheSizeGuard (sent (StatementRun statement params) (sent (DbPrepare query) s))"
  show "snd (runCommand eng query params s) = recordCache query statement ?checked"
    using assms by (simp add: runCommand_def Let_def)
  show "length (cachedStatements ?checked) \<le> 512"
    using cacheSizeGuard_bound [of "sent (StatementRun statement params) (sent (DbPrepare query) s)"]
    by (simp add: cacheRecordMaximum_def)
  show "cachedStatements ?checked = []" if "512 < length (cachedStatements s)"
    using that by (simp add: cacheSizeGuard_def freeCache_def cacheRecordMaximum_def)
  show "engineCalls ?checked =
          engineCalls s @ [DbPrepare query, StatementRun statement params]
          @ map (\<lambda>(q, cached). StatementFinalize cached) (cachedStatements s)"
    if "512 < length (cachedStatements s)"
    using that by (simp add: cacheSizeGuard_def freeCache_def cacheRecordMaximum_def)
  show "cachedStatements ?checked = cachedStatements s" if "length (cachedStatements s) \<le> 512"
    using that by (simp add: cacheSizeGuard_def cacheRecordMaximum_def)
  show "engineCalls ?checked = engineCalls s @ [DbPrepare query, StatementRun statement params]"
    if "length (cachedStatements s) \<le> 512"
    using that by (simp add: cacheSizeGuard_def cacheRecordMaximum_def)
qed

lemma eviction_after_513_statements:
  "length (cachedStatements (runCommands acceptingEngine (exampleQueries 513) initialWrapper)) = 513
   \<and> cachedStatements
        (snd (runCommand acceptingEngine (exampleQuery 513) []
                (runCommands acceptingEngine (exampleQueries 513) initialWrapper)))
       = [(exampleQuery 513,
           length (engineCalls (runCommands acceptingEngine (exampleQueries 513) initialWrapper)))]"
proof -
  let ?s = "runCommands acceptingEngine (exampleQueries 513) initialWrapper"
  have full: "length (cachedStatements ?s) = 513"
    using cache_holds_513_statements by simp
  have prepare: "dbPrepare acceptingEngine (engineCalls ?s) (exampleQuery 513)
                   = Inr (length (engineCalls ?s))"
    by (simp add: acceptingEngine_def)
  have run: "statementRun acceptingEngine (engineCalls ?s @ [DbPrepare (exampleQuery 513)])
               (length (engineCalls ?s)) [] = Inr \<lparr>changes = 1, lastInsertRowid = 1\<rparr>"
    by (simp add: acceptingEngine_def)
  from eviction_check_bounds_cache [OF miss_after_513 prepare run]
  obtain checked where
    "snd (runCommand acceptingEngine (exampleQuery 513) [] ?s)
       = recordCache (exampleQuery 513) (length (engineCalls ?s)) checked"
    and "512 < length (cachedStatements ?s) \<longrightarrow> cachedStatements checked = []"
    by blast
  with full show ?thesis
    by (simp add: recordCache_def)
qed

text \<open>\<^verbatim>\<open>runQuery\<close> makes the same check at the same place.\<close>

lemma runQuery_eviction_check:
  assumes "retrieveCache query s = None"
    and "dbPrepare eng (engineCalls s) query = Inr statement"
    and "statementAll eng (engineCalls s @ [DbPrepare query]) statement params = Inr result"
  shows "snd (runQuery eng query params s)
           = recordCache query statement
               (cacheSizeGuard (sent (StatementAll statement params) (sent (DbPrepare query) s)))"
  using assms by (simp add: runQuery_def Let_def)

section \<open>Properties of the query builders\<close>

lemma js_Nil [simp]: "js [] = []"
  by (simp add: js_def)

lemma join_empty_separator: "join [] xs = concat xs"
  by (induction "[] :: jsstring" xs rule: join.induct) simp_all

lemma mapConditions_valid:
  "list_all (\<lambda>d. checkSqlQueryIdentifierName (key d)) cs
   \<Longrightarrow> mapConditions (Suc n) cs = Inr (map (conditionText (Suc 0)) cs)"
proof (induction cs arbitrary: n)
  case Nil
  then show ?case by simp
next
  case (Cons d cs)
  then show ?case by (simp add: conditionText_def)
qed

lemma mapConditions_invalid:
  "\<not> list_all (\<lambda>d. checkSqlQueryIdentifierName (key d)) cs
   \<Longrightarrow> \<exists>d\<in>set cs. \<not> checkSqlQueryIdentifierName (key d)
         \<and> mapConditions n cs = Inl (InvalidColumnName (key d))"
proof (induction cs arbitrary: n)
  case Nil
  then show ?case by simp
next
  case (Cons d cs)
  show ?case
  proof (cases "checkSqlQueryIdentifierName (key d)")
    case False
    then show ?thesis by simp
  next
    case True
    with Cons.prems have "\<not> list_all (\<lambda>d. checkSqlQueryIdentifierName (key d)) cs"
      by simp
    from Cons.IH [OF this, of "Suc n"] True show ?thesis
      by auto
  qed
qed

lemma getConditionStr_invalid:
  assumes "\<not> list_all (\<lambda>d. checkSqlQueryIdentifierName (key d)) cs"
  shows "\<exists>d\<in>set cs. \<not> checkSqlQueryIdentifierName (key d)
           \<and> getConditionStr cs = Inl (InvalidColumnName (key d))"
proof -
  from assms have "cs \<noteq> []" by auto
  with mapConditions_invalid [OF assms, of 0] show ?thesis
    by (auto simp: getConditionStr_def)
qed

text \<open>
  A condition whose column name fails the identifier check makes \<^verbatim>\<open>getConditionStr\<close>
  throw, as \<open>getConditionStr_invalid\<close> says; an example.
\<close>

lemma getConditionStr_throws_example:
  "getConditionStr
     [\<lparr>key = js ''a;b'', operator = Eq, compared = VNumber (Finite 1), logicalOperator = And\<rparr>]
   = Inl (InvalidColumnName (js ''a;b''))"
  by (simp add: getConditionStr_def validator_defs charClass_defs js_def)

text \<open>
  Claim C6: \<^verbatim>\<open>getConditionStr\<close> applied to the empty sequence returns the empty
  string; applied to a non-empty sequence it returns \<^verbatim>\<open> WHERE \<close> followed by one text
  for each condition, in order: \<^verbatim>\<open>(c1 op ?)\<close> for the first, whose connective is
  discarded, and the connective of the condition itself followed by \<^verbatim>\<open>(ci op ?)\<close> for
  every later one, each condition parenthesized on its own with one placeholder. The
  column names are identifiers that pass the check (for any other the function throws,
  \<open>getConditionStr_invalid\<close>). The blanks are those of the source's template: two
  before the first parenthesis, one before and one after each connective.
\<close>

theorem C6_getConditionStr_text:
  "getConditionStr [] = Inr (js [])
   \<and> (list_all (\<lambda>d. checkSqlQueryIdentifierName (key d)) (c # cs) \<longrightarrow>
        getConditionStr (c # cs) =
          Inr (js '' WHERE '' @ js ''  ('' @ key c @ js '' '' @ comparisonText (operator c) @ js '' ?)''
               @ concat (map (\<lambda>d. js '' '' @ connectiveText (logicalOperator d) @ js '' ('' @ key d
                                   @ js '' '' @ comparisonText (operator d) @ js '' ?)'') cs)))"
proof (intro conjI impI)
  show "getConditionStr [] = Inr (js [])"
    by (simp add: getConditionStr_def)
next
  assume valid: "list_all (\<lambda>d. checkSqlQueryIdentifierName (key d)) (c # cs)"
  then have rest: "mapConditions (Suc 0) cs = Inr (map (conditionText (Suc 0)) cs)"
    by (simp add: mapConditions_valid)
  have first: "conditionText 0 c =
      js ''  ('' @ key c @ js '' '' @ comparisonText (operator c) @ js '' ?)''"
    by (simp add: conditionText_def js_def)
  have later: "conditionText (Suc 0) = (\<lambda>d. js '' '' @ connectiveText (logicalOperator d) @ js '' (''
      @ key d @ js '' '' @ comparisonText (operator d) @ js '' ?)'')"
    by (rule ext) (simp add: conditionText_def)
  from valid rest show "getConditionStr (c # cs) =
          Inr (js '' WHERE '' @ js ''  ('' @ key c @ js '' '' @ comparisonText (operator c) @ js '' ?)''
               @ concat (map (\<lambda>d. js '' '' @ connectiveText (logicalOperator d) @ js '' ('' @ key d
                                   @ js '' '' @ comparisonText (operator d) @ js '' ?)'') cs))"
    by (simp add: getConditionStr_def join_empty_separator first later)
qed

theorem C6_getConditionStr_text_witness:
  "list_all (\<lambda>d. checkSqlQueryIdentifierName (key d))
     [\<lparr>key = js ''a'', operator = Eq, compared = VNumber (Finite 1), logicalOperator = And\<rparr>,
      \<lparr>key = js ''b'', operator = Like, compared = VNull, logicalOperator = Or\<rparr>]
   \<and> getConditionStr
       [\<lparr>key = js ''a'', operator = Eq, compared = VNumber (Finite 1), logicalOperator = And\<rparr>,
        \<lparr>key = js ''b'', operator = Like, compared = VNull, logicalOperator = Or\<rparr>]
     = Inr (js '' WHERE   (a = ?) OR (b LIKE ?)'')
   \<and> getConditionStr
       [\<lparr>key = js ''a'', operator = Eq, compared = VNumber (Finite 1), logicalOperator = And\<rparr>]
     = Inr (js '' WHERE   (a = ?)'')"
proof -
  have valid: "list_all (\<lambda>d. checkSqlQueryIdentifierName (key d))
     [\<lparr>key = js ''a'', operator = Eq, compared = VNumber (Finite 1), logicalOperator = And\<rparr>,
      \<lparr>key = js ''b'', operator = Like, compared = VNull, logicalOperator = Or\<rparr>]"
    by (simp add: validator_defs charClass_defs js_def)
  from C6_getConditionStr_text
    [of "\<lparr>key = js ''a'', operator = Eq, compared = VNumber (Finite 1), logicalOperator = And\<rparr>"
        "[\<lparr>key = js ''b'', operator = Like, compared = VNull, logicalOperator = Or\<rparr>]"]
    C6_getConditionStr_text
    [of "\<lparr>key = js ''a'', operator = Eq, compared = VNumber (Finite 1), logicalOperator = And\<rparr>"
        "[]"]
    valid
  show ?thesis by (simp add: js_def)
qed

text \<open>
  The query and the parameters \<open>selectQuery\<close> builds, for conditions that give the
  string \<open>conditionStr\<close> (empty for no condition); \<open>gt0\<close> is the test \<^verbatim>\<open>> 0\<close> of the
  source.
\<close>

lemma selectQuery_limit_offset:
  assumes "getConditionStr conditions = Inr conditionStr"
  shows "selectQuery tableName columns conditions limit offset =
           Inr (js ''SELECT '' @ join (js '','') columns @ js '' FROM '' @ tableName @ conditionStr
                @ (if gt0 limit then js '' LIMIT ?'' else js [])
                @ (if gt0 offset then js '' OFFSET ?'' else js []),
                map compared conditions
                @ (if gt0 limit then [VNumber limit] else [])
                @ (if gt0 offset then [VNumber offset] else []))"
proof (cases "conditions = []")
  case True
  with assms have "conditionStr = []"
    by (simp add: getConditionStr_def js_def)
  with True show ?thesis
    by (simp add: selectQuery_def js_def)
next
  case False
  with assms show ?thesis
    by (simp add: selectQuery_def js_def)
qed

text \<open>
  The query and the parameters of \<open>selectQuery\<close> are what \<^verbatim>\<open>select\<close> runs, once the
  table was found in the catalog.
\<close>

lemma select_hands_selectQuery_to_runQuery:
  assumes "isTableExist eng tableName s = (Fulfilled True, s1)"
    and "selectQuery tableName columns conditions limit offset = Inr (queryStr, param)"
  shows "snd (select eng tableName columns conditions limit offset s)
           = snd (runQuery eng queryStr param s1)"
  using assms by (simp add: select_def Let_def split: prod.splits settled.splits)

section \<open>Properties of the operations\<close>

lemma resolve_reject_simps [simp]:
  "resolve v None = Some (Fulfilled v)"
  "resolve v (Some x) = Some x"
  "reject e None = Some (Rejected e)"
  "reject e (Some x) = Some x"
  by (simp_all add: resolve_def reject_def)

lemma checkColumnNames_settled [simp]: "checkColumnNames columns (Some x) = Some x"
  by (induction columns) (simp_all add: checkColumnNames_def)

lemma checkColumnNames_valid:
  "list_all checkSqlQueryIdentifierName columns \<Longrightarrow> checkColumnNames columns p = p"
  by (induction columns) (simp_all add: checkColumnNames_def)

text \<open>
  \<^verbatim>\<open>prepareTable\<close> and \<^verbatim>\<open>deleteTable\<close> send their command whatever the identifier check
  answers, and \<^verbatim>\<open>prepareTable\<close> registers the frame in every case.
\<close>

lemma prepareTable_always_sends:
  "engineCalls (snd (prepareTable eng stringify tableName frame s))
     = engineCalls s @ [DbRun (createTableCommand stringify tableName frame)]"
  by (simp add: prepareTable_def Let_def)

lemma prepareTable_always_registers:
  "tables (snd (prepareTable eng stringify tableName frame s)) tableName = Some frame"
  by (simp add: prepareTable_def Let_def)

lemma prepareTable_rejects_invalid_table_name:
  "\<not> checkSqlQueryIdentifierName tableName
   \<Longrightarrow> fst (prepareTable eng stringify tableName frame s)
         = Some (Rejected (InvalidTableName tableName))"
  by (simp add: prepareTable_def Let_def checkTableName_def split: option.splits)

lemma deleteTable_always_sends:
  "engineCalls (snd (deleteTable eng tableName s))
     = engineCalls s @ [DbRun (js ''DROP TABLE IF EXISTS '' @ tableName)]"
  by (simp add: deleteTable_def Let_def split: option.splits)

lemma createTableCommand_example:
  "createTableCommand stringify (js ''users; DROP TABLE students'') [(js ''id'', idColumn)]
     = js ''CREATE TABLE IF NOT EXISTS users; DROP TABLE students (id INTEGER PRIMARY KEY)''"
  by (simp add: createTableCommand_def joinLines_def columnTemplate_def idColumn_def trim_def
      js_def isWhiteSpace_def inRange_def)

text \<open>
  Claim C1: when a table or column name fails the identifier check, the operation fails
  with a validation error and the statement is never sent to the engine. The code calls
  \<^verbatim>\<open>reject\<close> and goes on (there is no \<^verbatim>\<open>return\<close>): the promise is rejected with the
  validation error, and the statement is sent all the same. Here \<^verbatim>\<open>prepareTable\<close> is
  evaluated on a table name that fails the check, for any engine and any state.
\<close>

theorem C1_prepareTable_sends_rejected_name:
  "\<not> checkSqlQueryIdentifierName (js ''users; DROP TABLE students'')
   \<and> fst (prepareTable eng stringify (js ''users; DROP TABLE students'') [(js ''id'', idColumn)] s)
       = Some (Rejected (InvalidTableName (js ''users; DROP TABLE students'')))
   \<and> engineCalls (snd (prepareTable eng stringify (js ''users; DROP TABLE students'')
                           [(js ''id'', idColumn)] s))
       = engineCalls s
         @ [DbRun (js ''CREATE TABLE IF NOT EXISTS users; DROP TABLE students (id INTEGER PRIMARY KEY)'')]"
proof -
  have invalid: "\<not> checkSqlQueryIdentifierName (js ''users; DROP TABLE students'')"
    by (simp add: validator_defs charClass_defs js_def)
  from invalid prepareTable_rejects_invalid_table_name [OF invalid] show ?thesis
    by (simp add: prepareTable_always_sends createTableCommand_example)
qed

text \<open>
  Claim C10, as stated (the promise of \<^verbatim>\<open>prepareTable\<close> settles successfully even when
  the engine reports an error), fails: with valid names and an engine whose \<^verbatim>\<open>db.run\<close>
  throws, the \<^verbatim>\<open>catch\<close> rejects the promise, and the later \<^verbatim>\<open>resolve()\<close> is ignored.
\<close>

theorem C10_prepareTable_rejects_on_engine_error:
  "checkSqlQueryIdentifierName (js ''users'')
   \<and> list_all checkSqlQueryIdentifierName (map fst [(js ''id'', idColumn)])
   \<and> fst (prepareTable failingEngine exampleStringify (js ''users'') [(js ''id'', idColumn)]
            initialWrapper)
       = Some (Rejected (FailedToPrepareTable (js ''disk I/O error'')))"
  by (simp add: prepareTable_def Let_def checkTableName_def checkColumnNames_def
      failingEngine_def acceptingEngine_def validator_defs charClass_defs js_def)

text \<open>
  Claim C10, amended: for every \<^verbatim>\<open>prepareTable(t, frame)\<close> whose table and column names
  pass the identifier check, the registry afterwards maps \<open>t\<close> to \<open>frame\<close>, also when
  the engine reports an error on the \<^verbatim>\<open>CREATE TABLE\<close> statement; the promise is
  fulfilled when the engine accepts the statement and rejected with
  \<^verbatim>\<open>Failed to prepare table due to: ...\<close> when the engine reports an error.
\<close>

theorem C10_prepareTable_registers_and_settles:
  assumes "checkSqlQueryIdentifierName tableName"
    and "list_all checkSqlQueryIdentifierName (map fst frame)"
  shows "tables (snd (prepareTable eng stringify tableName frame s)) tableName = Some frame
         \<and> fst (prepareTable eng stringify tableName frame s)
             = Some (case dbRun eng (engineCalls s) (createTableCommand stringify tableName frame) of
                       None \<Rightarrow> Fulfilled ()
                     | Some m \<Rightarrow> Rejected (FailedToPrepareTable m))"
  using assms
  by (simp add: prepareTable_def Let_def checkTableName_def checkColumnNames_valid
      split: option.splits)

theorem C10_prepareTable_registers_and_settles_witness:
  "checkSqlQueryIdentifierName (js ''users'')
   \<and> list_all checkSqlQueryIdentifierName (map fst [(js ''id'', idColumn)])
   \<and> tables (snd (prepareTable failingEngine exampleStringify (js ''users'') [(js ''id'', idColumn)]
                    initialWrapper)) (js ''users'')
       = Some [(js ''id'', idColumn)]
   \<and> fst (prepareTable failingEngine exampleStringify (js ''users'') [(js ''id'', idColumn)]
            initialWrapper)
       = Some (Rejected (FailedToPrepareTable (js ''disk I/O error'')))"
proof -
  have t: "checkSqlQueryIdentifierName (js ''users'')"
    by (simp add: validator_defs charClass_defs js_def)
  have c: "list_all checkSqlQueryIdentifierName (map fst [(js ''id'', idColumn)])"
    by (simp add: validator_defs charClass_defs js_def)
  from C10_prepareTable_registers_and_settles [OF t c, of failingEngine exampleStringify initialWrapper]
    t c
  show ?thesis by (simp add: failingEngine_def acceptingEngine_def)
qed

lemmas engine_defs = acceptingEngine_def absentEngine_def failingEngine_def

lemmas cache_defs =
  runCommand_def runQuery_def retrieveCache_def recordCache_def cacheSizeGuard_def
  cacheRecordMaximum_def

lemma hd_isTableExistQuery: "hd isTableExistQuery = 0x0A"
  by (simp add: isTableExistQuery_def js_def)

lemma not_isTableExistQuery:
  assumes "hd query \<noteq> 0x0A"
  shows "query \<noteq> isTableExistQuery"
  using assms hd_isTableExistQuery by auto

lemma isTableExist_initial:
  "isTableExist acceptingEngine tableName initialWrapper
     = (Fulfilled True,
        \<lparr>tables = Map.empty, cachedStatements = [(isTableExistQuery, 1)],
         engineCalls = [DbRun (js ''PRAGMA foreign_keys = ON;''), DbPrepare isTableExistQuery,
                        StatementAll 1 [VString tableName]]\<rparr>)"
  by (simp add: isTableExist_def cache_defs engine_defs initialWrapper_def sent_def Let_def)

lemma isTableExist_initial_absent:
  "isTableExist absentEngine tableName initialWrapper
     = (Fulfilled False,
        \<lparr>tables = Map.empty, cachedStatements = [(isTableExistQuery, 1)],
         engineCalls = [DbRun (js ''PRAGMA foreign_keys = ON;''), DbPrepare isTableExistQuery,
                        StatementAll 1 [VString tableName]]\<rparr>)"
  by (simp add: isTableExist_def cache_defs engine_defs initialWrapper_def sent_def Let_def)

text \<open>
  Claim C4: for rows with the same keys \<^verbatim>\<open>insert\<close> builds one \<^verbatim>\<open>INSERT\<close> statement with
  one \<^verbatim>\<open>VALUES\<close> tuple per row, well-formed for any number of rows. The code puts the
  keyword \<^verbatim>\<open>VALUES\<close> in front of every tuple and joins the tuples with a comma, so
  from two rows on the keyword is repeated after the comma, which is not SQL. Here
  \<^verbatim>\<open>insert\<close> is evaluated on two rows with the key \<^verbatim>\<open>name\<close>; the calls sent to the
  engine are listed, the statement of \<^verbatim>\<open>insert\<close> being the fourth.
\<close>

theorem C4_insert_two_rows_repeats_VALUES:
  "engineCalls (snd (insert_rows acceptingEngine (js ''students'')
                       [[(js ''name'', VString (js ''Ann''))], [(js ''name'', VString (js ''Bob''))]]
                       None initialWrapper))
     = [DbRun (js ''PRAGMA foreign_keys = ON;''),
        DbPrepare isTableExistQuery,
        StatementAll 1 [VString (js ''students'')],
        DbPrepare (js ''INSERT INTO students (name) VALUES (?),  VALUES (?)''),
        StatementRun 3 [VString (js ''Ann''), VString (js ''Bob'')]]"
proof -
  have valid: "checkSqlQueryIdentifierName (js ''students'')"
    "checkSqlQueryIdentifierName (js ''name'')"
    by (simp_all add: validator_defs charClass_defs js_def)
  have sql: "insertColumnsStr (js ''students'') [(js ''name'', VString (js ''Ann''))]
        @ insertValuesStr [[(js ''name'', VString (js ''Ann''))], [(js ''name'', VString (js ''Bob''))]]
        @ insertOptionStr None
      = js ''INSERT INTO students (name) VALUES (?),  VALUES (?)''"
    using valid(2) by (simp add: insertColumnsStr_def insertValuesStr_def insertOptionStr_def js_def)
  have other: "js ''INSERT INTO students (name) VALUES (?),  VALUES (?)'' \<noteq> isTableExistQuery"
    by (rule not_isTableExistQuery) (simp add: js_def)
  have run: "engineCalls (snd (runCommand acceptingEngine
                (js ''INSERT INTO students (name) VALUES (?),  VALUES (?)'') params
                \<lparr>tables = Map.empty, cachedStatements = [(isTableExistQuery, Suc 0)],
                 engineCalls = [DbRun (js ''PRAGMA foreign_keys = ON;''), DbPrepare isTableExistQuery,
                                StatementAll (Suc 0) [VString (js ''students'')]]\<rparr>))
      = [DbRun (js ''PRAGMA foreign_keys = ON;''), DbPrepare isTableExistQuery,
         StatementAll (Suc 0) [VString (js ''students'')],
         DbPrepare (js ''INSERT INTO students (name) VALUES (?),  VALUES (?)''),
         StatementRun 3 params]" for params
    using other by (simp add: cache_defs engine_defs sent_def Let_def)
  show ?thesis
    using valid(1)
    by (simp add: insert_rows_def Let_def isTableExist_initial sql run split_beta)
qed

text \<open>
  \<^verbatim>\<open>select\<close> awaits the catalog: when the table is absent it is rejected with
  \<^verbatim>\<open>Table ... not found.\<close> and nothing but the existence query was sent.
\<close>

lemma select_rejects_absent_table:
  assumes "fst (isTableExist eng tableName s) = Fulfilled False"
  shows "select eng tableName columns conditions limit offset s
           = (Some (Rejected (TableNotFound tableName)), snd (isTableExist eng tableName s))"
  using assms by (auto simp: select_def split: prod.splits settled.splits)

text \<open>
  Claim C5: \<^verbatim>\<open>select\<close> and \<^verbatim>\<open>delete\<close> check the catalog before they proceed and are
  rejected when the table is absent from it. \<^verbatim>\<open>select\<close> does (\<open>select_rejects_absent_table\<close>).
  \<^verbatim>\<open>delete\<close> sends the existence query but tests the promise, not its answer, so it
  proceeds whatever the catalog says. Here the catalog answers that the table is absent
  and the engine accepts the statement (as it does for a \<^verbatim>\<open>TEMP\<close> table, which is not
  listed in \<^verbatim>\<open>sqlite_master\<close>): \<^verbatim>\<open>DELETE FROM ghost\<close> is sent and the promise is fulfilled.
\<close>

theorem C5_delete_runs_on_absent_table:
  "fst (isTableExist absentEngine (js ''ghost'') initialWrapper) = Fulfilled False
   \<and> fst (delete absentEngine (js ''ghost'') [] initialWrapper)
       = Some (Fulfilled \<lparr>changes = 1, lastInsertRowid = 1\<rparr>)
   \<and> engineCalls (snd (delete absentEngine (js ''ghost'') [] initialWrapper))
       = [DbRun (js ''PRAGMA foreign_keys = ON;''),
          DbPrepare isTableExistQuery,
          StatementAll 1 [VString (js ''ghost'')],
          DbPrepare (js ''DELETE FROM ghost''),
          StatementRun 3 []]"
proof -
  have valid: "checkSqlQueryIdentifierName (js ''ghost'')"
    by (simp add: validator_defs charClass_defs js_def)
  have other: "js ''DELETE FROM ghost'' \<noteq> isTableExistQuery"
    by (rule not_isTableExistQuery) (simp add: js_def)
  have run: "runCommand absentEngine (js ''DELETE FROM ghost'') []
                \<lparr>tables = Map.empty, cachedStatements = [(isTableExistQuery, Suc 0)],
                 engineCalls = [DbRun (js ''PRAGMA foreign_keys = ON;''), DbPrepare isTableExistQuery,
                                StatementAll (Suc 0) [VString (js ''ghost'')]]\<rparr>
      = (Fulfilled \<lparr>changes = 1, lastInsertRowid = 1\<rparr>,
         \<lparr>tables = Map.empty,
          cachedStatements = [(isTableExistQuery, Suc 0), (js ''DELETE FROM ghost'', 3)],
          engineCalls = [DbRun (js ''PRAGMA foreign_keys = ON;''), DbPrepare isTableExistQuery,
                         StatementAll (Suc 0) [VString (js ''ghost'')],
                         DbPrepare (js ''DELETE FROM ghost''), StatementRun 3 []]\<rparr>)"
    using other by (simp add: cache_defs engine_defs sent_def Let_def)
  have no_condition: "getConditionStr [] = Inr []"
    by (simp add: getConditionStr_def)
  have sql: "js ''DELETE FROM '' @ js ''ghost'' = js ''DELETE FROM ghost''"
    by (simp add: js_def)
  show ?thesis
    using valid
    by (simp add: delete_def Let_def isTableExist_initial_absent no_condition sql run
        checkTableName_def)
qed

text \<open>The calls \<^verbatim>\<open>runQuery\<close> sends to the engine, in every case.\<close>

lemma runQuery_engineCalls:
  "engineCalls (snd (runQuery eng query params s)) =
     engineCalls s
     @ (case retrieveCache query s of
          Some cached \<Rightarrow> [StatementAll cached params]
        | None \<Rightarrow>
            (case dbPrepare eng (engineCalls s) query of
               Inl m \<Rightarrow> [DbPrepare query]
             | Inr statement \<Rightarrow>
                 [DbPrepare query, StatementAll statement params]
                 @ (case statementAll eng (engineCalls s @ [DbPrepare query]) statement params of
                      Inl m \<Rightarrow> []
                    | Inr result \<Rightarrow>
                        if cacheRecordMaximum < length (cachedStatements s)
                        then map (\<lambda>(q, cached). StatementFinalize cached) (cachedStatements s)
                        else [])))"
  by (simp add: runQuery_def Let_def recordCache_def cacheSizeGuard_def freeCache_def
      split: option.splits sum.splits)

lemma snd_settle:
  "snd (case r of (Fulfilled result, s2) \<Rightarrow> (f result, s2) | (Rejected e, s2) \<Rightarrow> (g e, s2)) = snd r"
  by (simp split: prod.splits settled.splits)

text \<open>
  Claim C7: for every \<^verbatim>\<open>select\<close> call with a limit of 0 or less the generated SQL has no
  \<^verbatim>\<open>LIMIT\<close> clause, and with an offset of 0 or less no \<^verbatim>\<open>OFFSET\<close> clause; a positive
  limit appends \<^verbatim>\<open> LIMIT ?\<close> and a positive offset \<^verbatim>\<open> OFFSET ?\<close>, the values being passed
  as bound parameters.

  The theorem is about a \<^verbatim>\<open>select\<close> call that found its table in the catalog (\<open>s1\<close> is
  the state the existence check leaves) and whose conditions give the string
  \<open>conditionStr\<close>, empty for no condition. Such a call runs the query \<open>queryStr\<close> with
  the parameters \<open>param\<close> through \<^verbatim>\<open>runQuery\<close>, and the engine receives the \<^verbatim>\<open>prepare\<close> of
  that text, unless it is cached, and the execution of the statement with those
  parameters. \<open>gt0\<close> is the test \<^verbatim>\<open>> 0\<close> of the source.
\<close>

theorem C7_select_limit_offset:
  assumes "isTableExist eng tableName s = (Fulfilled True, s1)"
    and "getConditionStr conditions = Inr conditionStr"
    and "queryStr = js ''SELECT '' @ join (js '','') columns @ js '' FROM '' @ tableName
                    @ conditionStr
                    @ (if gt0 limit then js '' LIMIT ?'' else js [])
                    @ (if gt0 offset then js '' OFFSET ?'' else js [])"
    and "param = map compared conditions
                 @ (if gt0 limit then [VNumber limit] else [])
                 @ (if gt0 offset then [VNumber offset] else [])"
  shows "select eng tableName columns conditions limit offset s =
           (case runQuery eng queryStr param s1 of
              (Fulfilled result, s2) \<Rightarrow>
                (resolve result (checkColumnNames columns (checkTableName tableName None)), s2)
            | (Rejected e, s2) \<Rightarrow>
                (reject (FailedToFetch tableName e)
                   (checkColumnNames columns (checkTableName tableName None)), s2))
         \<and> engineCalls (snd (select eng tableName columns conditions limit offset s)) =
             engineCalls s1
             @ (case retrieveCache queryStr s1 of
                  Some cached \<Rightarrow> [StatementAll cached param]
                | None \<Rightarrow>
                    (case dbPrepare eng (engineCalls s1) queryStr of
                       Inl m \<Rightarrow> [DbPrepare queryStr]
                     | Inr statement \<Rightarrow>
                         [DbPrepare queryStr, StatementAll statement param]
                         @ (case statementAll eng (engineCalls s1 @ [DbPrepare queryStr])
                                   statement param of
                              Inl m \<Rightarrow> []
                            | Inr result \<Rightarrow>
                                if cacheRecordMaximum < length (cachedStatements s1)
                                then map (\<lambda>(q, cached). StatementFinalize cached)
                                       (cachedStatements s1)
                                else [])))"
proof -
  have built: "selectQuery tableName columns conditions limit offset = Inr (queryStr, param)"
    using selectQuery_limit_offset [OF assms(2)] assms(3,4) by simp
  have run: "select eng tableName columns conditions limit offset s =
           (case runQuery eng queryStr param s1 of
              (Fulfilled result, s2) \<Rightarrow>
                (resolve result (checkColumnNames columns (checkTableName tableName None)), s2)
            | (Rejected e, s2) \<Rightarrow>
                (reject (FailedToFetch tableName e)
                   (checkColumnNames columns (checkTableName tableName None)), s2))"
    by (simp add: select_def assms(1) built Let_def)
  have "snd (select eng tableName columns conditions limit offset s) = snd (runQuery eng queryStr param s1)"
    by (simp only: run snd_settle)
  then have "engineCalls (snd (select eng tableName columns conditions limit offset s))
               = engineCalls (snd (runQuery eng queryStr param s1))"
    by simp
  with run show ?thesis
    by (simp only: runQuery_engineCalls simp_thms)
qed

theorem C7_select_limit_offset_witness:
  "engineCalls (snd (select acceptingEngine (js ''students'') [js ''name'', js ''age'']
       [\<lparr>key = js ''id'', operator = Eq, compared = VNumber (Finite 7), logicalOperator = And\<rparr>]
       (Finite 10) (Finite 0) initialWrapper))
     = [DbRun (js ''PRAGMA foreign_keys = ON;''),
        DbPrepare isTableExistQuery,
        StatementAll 1 [VString (js ''students'')],
        DbPrepare (js ''SELECT name,age FROM students WHERE   (id = ?) LIMIT ?''),
        StatementAll 3 [VNumber (Finite 7), VNumber (Finite 10)]]
   \<and> engineCalls (snd (select acceptingEngine (js ''students'') [js ''name'', js ''age'']
       [\<lparr>key = js ''id'', operator = Eq, compared = VNumber (Finite 7), logicalOperator = And\<rparr>]
       (Finite 0) (Finite (- 3)) initialWrapper))
     = [DbRun (js ''PRAGMA foreign_keys = ON;''),
        DbPrepare isTableExistQuery,
        StatementAll 1 [VString (js ''students'')],
        DbPrepare (js ''SELECT name,age FROM students WHERE   (id = ?)''),
        StatementAll 3 [VNumber (Finite 7)]]"
proof -
  let ?conditions =
    "[\<lparr>key = js ''id'', operator = Eq, compared = VNumber (Finite 7), logicalOperator = And\<rparr>]"
  let ?s1 = "\<lparr>tables = Map.empty, cachedStatements = [(isTableExistQuery, Suc 0)],
       engineCalls = [DbRun (js ''PRAGMA foreign_keys = ON;''), DbPrepare isTableExistQuery,
                      StatementAll (Suc 0) [VString (js ''students'')]]\<rparr>"
  have found: "isTableExist acceptingEngine (js ''students'') initialWrapper = (Fulfilled True, ?s1)"
    by (simp add: isTableExist_initial)
  have conds: "getConditionStr ?conditions = Inr (js '' WHERE   (id = ?)'')"
    by (simp add: getConditionStr_def conditionText_def validator_defs charClass_defs js_def)
  have q1: "js ''SELECT name,age FROM students WHERE   (id = ?) LIMIT ?''
      = js ''SELECT '' @ join (js '','') [js ''name'', js ''age''] @ js '' FROM '' @ js ''students''
        @ js '' WHERE   (id = ?)''
        @ (if gt0 (Finite 10) then js '' LIMIT ?'' else js [])
        @ (if gt0 (Finite 0) then js '' OFFSET ?'' else js [])"
    by (simp add: js_def)
  have p1: "[VNumber (Finite 7), VNumber (Finite 10)]
      = map compared ?conditions
        @ (if gt0 (Finite 10) then [VNumber (Finite 10)] else [])
        @ (if gt0 (Finite 0) then [VNumber (Finite 0)] else [])"
    by simp
  have q2: "js ''SELECT name,age FROM students WHERE   (id = ?)''
      = js ''SELECT '' @ join (js '','') [js ''name'', js ''age''] @ js '' FROM '' @ js ''students''
        @ js '' WHERE   (id = ?)''
        @ (if gt0 (Finite 0) then js '' LIMIT ?'' else js [])
        @ (if gt0 (Finite (- 3)) then js '' OFFSET ?'' else js [])"
    by (simp add: js_def)
  have p2: "[VNumber (Finite 7)]
      = map compared ?conditions
        @ (if gt0 (Finite 0) then [VNumber (Finite 0)] else [])
        @ (if gt0 (Finite (- 3)) then [VNumber (Finite (- 3))] else [])"
    by simp
  have other:
    "retrieveCache (js ''SELECT name,age FROM students WHERE   (id = ?) LIMIT ?'') ?s1 = None"
    "retrieveCache (js ''SELECT name,age FROM students WHERE   (id = ?)'') ?s1 = None"
    using not_isTableExistQuery [of "js ''SELECT name,age FROM students WHERE   (id = ?) LIMIT ?''"]
      not_isTableExistQuery [of "js ''SELECT name,age FROM students WHERE   (id = ?)''"]
    by (simp_all add: retrieveCache_def js_def)
  from C7_select_limit_offset [OF found conds q1 p1, THEN conjunct2]
    C7_select_limit_offset [OF found conds q2 p2, THEN conjunct2]
  show ?thesis
    by (simp add: other acceptingEngine_def cacheRecordMaximum_def)
qed

lemma snd_isTableExist:
  "snd (isTableExist eng tableName s) = snd (runQuery eng isTableExistQuery [VString tableName] s)"
  by (simp add: isTableExist_def split: prod.splits settled.splits list.splits)

text \<open>
  Claim C8, as stated (\<^verbatim>\<open>insert\<close> with no row fails rather than sending any statement to
  the engine), fails: \<^verbatim>\<open>insert\<close> first calls \<^verbatim>\<open>isTableExist\<close>, whose query on the catalog
  is prepared and executed before the rows are looked at.
\<close>

theorem C8_insert_empty_sends_catalog_query:
  "fst (insert_rows acceptingEngine (js ''students'') [] None initialWrapper) = Inl TypeError
   \<and> engineCalls (snd (insert_rows acceptingEngine (js ''students'') [] None initialWrapper))
       = [DbRun (js ''PRAGMA foreign_keys = ON;''),
          DbPrepare isTableExistQuery,
          StatementAll 1 [VString (js ''students'')]]
   \<and> engineCalls initialWrapper = [DbRun (js ''PRAGMA foreign_keys = ON;'')]"
proof -
  have valid: "checkSqlQueryIdentifierName (js ''students'')"
    by (simp add: validator_defs charClass_defs js_def)
  have sent_before: "engineCalls initialWrapper = [DbRun (js ''PRAGMA foreign_keys = ON;'')]"
    by (simp add: initialWrapper_def)
  from valid show ?thesis
    by (simp add: insert_rows_def Let_def isTableExist_initial sent_before)
qed

text \<open>
  Claim C8, amended: calling \<^verbatim>\<open>insert\<close> with an empty row sequence is an error, and no
  \<^verbatim>\<open>INSERT\<close> statement is built or sent. \<^verbatim>\<open>insert\<close> throws a \<^verbatim>\<open>TypeError\<close> when the table
  name passes the identifier check and returns a promise rejected with the validation
  error when it does not. Before that it has issued its catalog existence query, and the
  wrapper is left exactly as \<^verbatim>\<open>isTableExist\<close> leaves it: the engine receives the
  \<^verbatim>\<open>prepare\<close> of that query unless it is cached, its execution with the table name as
  the one parameter, and, when the statement is new, has run and more than 512
  statements are cached, the \<^verbatim>\<open>finalize\<close> of every cached statement.
\<close>

theorem C8_insert_empty_fails:
  "insert_rows eng tableName [] conflict s =
     (if checkSqlQueryIdentifierName tableName then Inl TypeError
      else Inr (Rejected (InvalidTableName tableName)),
      snd (isTableExist eng tableName s))
   \<and> engineCalls (snd (insert_rows eng tableName [] conflict s)) =
       engineCalls s
       @ (case retrieveCache isTableExistQuery s of
            Some cached \<Rightarrow> [StatementAll cached [VString tableName]]
          | None \<Rightarrow>
              (case dbPrepare eng (engineCalls s) isTableExistQuery of
                 Inl m \<Rightarrow> [DbPrepare isTableExistQuery]
               | Inr statement \<Rightarrow>
                   [DbPrepare isTableExistQuery, StatementAll statement [VString tableName]]
                   @ (case statementAll eng (engineCalls s @ [DbPrepare isTableExistQuery])
                             statement [VString tableName] of
                        Inl m \<Rightarrow> []
                      | Inr result \<Rightarrow>
                          if cacheRecordMaximum < length (cachedStatements s)
                          then map (\<lambda>(q, cached). StatementFinalize cached) (cachedStatements s)
                          else [])))"
proof -
  have outcome: "insert_rows eng tableName [] conflict s =
     (if checkSqlQueryIdentifierName tableName then Inl TypeError
      else Inr (Rejected (InvalidTableName tableName)),
      snd (isTableExist eng tableName s))"
    by (simp add: insert_rows_def Let_def)
  have "engineCalls (snd (insert_rows eng tableName [] conflict s))
          = engineCalls (snd (runQuery eng isTableExistQuery [VString tableName] s))"
    by (simp add: outcome snd_isTableExist)
  with outcome show ?thesis
    by (simp only: runQuery_engineCalls simp_thms)
qed

text \<open>
  \<^verbatim>\<open>update\<close> and \<^verbatim>\<open>delete\<close> hand their statement to \<^verbatim>\<open>runCommand\<close> whatever the
  identifier check says of the table name and of the keys of the row: only a condition
  whose column name fails the check stops them, by the error \<^verbatim>\<open>getConditionStr\<close> throws.
\<close>

lemma update_runs_whatever_the_check_says:
  assumes "getConditionStr conditions = Inr conditionStr"
  shows "snd (update eng tableName dataFrame conditions s)
           = snd (runCommand eng
                    (js ''UPDATE '' @ tableName @ js '' SET ''
                     @ join (js '', '') (map (\<lambda>k. k @ js '' = ?'') (map fst dataFrame))
                     @ conditionStr)
                    (map snd dataFrame @ map compared conditions) s)"
  using assms by (simp add: update_def Let_def split: prod.splits settled.splits)

lemma delete_runs_whatever_the_check_says:
  assumes "getConditionStr conditions = Inr conditionStr"
  shows "snd (delete eng tableName conditions s)
           = snd (runCommand eng (js ''DELETE FROM '' @ tableName @ conditionStr)
                    (map compared conditions) (snd (isTableExist eng tableName s)))"
  using assms by (simp add: delete_def Let_def split: prod.splits settled.splits)

end
